theory Spec2Isabelle
  imports Complex_Main "HOL-Library.Multiset"
begin

section \<open>Values of the forecasting module\<close>

text \<open>
  The module \<^verbatim>\<open>stock_forecast/stock_price_forecast.py\<close> works on pandas frames of price
  bars and returns pandas frames of forecast rows. A frame is modelled as the list of its
  rows, the empty frame \<^verbatim>\<open>pd.DataFrame()\<close> as the empty list.

  Numbers: a close price is a finite float; arithmetic on finite values is modelled by
  exact arithmetic on \<^typ>\<open>real\<close> (rounding is not modelled). numpy and pandas do not
  raise on a float division by zero (the module silences the warning): the quotient is
  \<^verbatim>\<open>nan\<close> or an infinity. These special values are kept, so a division is never
  silently read as HOL's \<open>x / 0 = 0\<close>.

  Time: a pandas \<^verbatim>\<open>Timestamp\<close> is a count of nanoseconds since the epoch held in 64
  bits, timezone-naive; adding a \<^verbatim>\<open>timedelta\<close> that leaves the range raises.

  The \<^verbatim>\<open>print\<close> calls of the source are progress output and are not modelled.
\<close>

type_synonym timestamp = int

definition NS_PER_DAY :: int where
  "NS_PER_DAY = 86400000000000"

definition TS_MAX :: int where
  "TS_MAX = 9223372036854775807"

text \<open>
  The exceptions of the model. \<open>LibraryError\<close> and \<open>ConnectionError\<close> stand for
  whatever a numerical library or a request to the price table raises; every
  \<^verbatim>\<open>except Exception\<close> of the module treats all of them alike.
\<close>

datatype py_error = OverflowError | ValueError | LibraryError | ConnectionError

datatype npfloat = Fin real | PInf | NInf | NaN

text \<open>\<^verbatim>\<open>a / b\<close> on floats under numpy: IEEE 754 division, zero divisor included.\<close>

definition np_div :: "real \<Rightarrow> real \<Rightarrow> npfloat" where
  "np_div a b =
     (if b \<noteq> 0 then Fin (a / b)
      else if a = 0 then NaN
      else if 0 < a then PInf
      else NInf)"

text \<open>\<^verbatim>\<open>q * 100\<close>: a positive finite factor keeps a special value as it is.\<close>

fun np_times_100 :: "npfloat \<Rightarrow> npfloat" where
  "np_times_100 (Fin x) = Fin (x * 100)"
| "np_times_100 PInf = PInf"
| "np_times_100 NInf = NInf"
| "np_times_100 NaN = NaN"

text \<open>\<^verbatim>\<open>last_date + timedelta(days=k)\<close> on a pandas Timestamp.\<close>

definition add_timedelta_days :: "timestamp \<Rightarrow> int \<Rightarrow> py_error + timestamp" where
  "add_timedelta_days t k =
     (let delta = k * NS_PER_DAY
      in if TS_MAX < delta \<or> TS_MAX < t + delta then Inl OverflowError
         else Inr (t + delta))"

text \<open>\<^verbatim>\<open>range(n)\<close>: empty for \<open>n \<le> 0\<close>.\<close>

definition py_range :: "int \<Rightarrow> int list" where
  "py_range n = map int [0..<nat n]"

text \<open>
  A list comprehension or a \<^verbatim>\<open>for\<close> loop appending one value per element, whose body may
  raise: the first exception ends it.
\<close>

fun for_each :: "('a \<Rightarrow> py_error + 'b) \<Rightarrow> 'a list \<Rightarrow> py_error + 'b list" where
  "for_each f [] = Inr []"
| "for_each f (x # xs) =
     (case f x of
        Inl e \<Rightarrow> Inl e
      | Inr y \<Rightarrow> (case for_each f xs of Inl e \<Rightarrow> Inl e | Inr ys \<Rightarrow> Inr (y # ys)))"

text \<open>
  \<^verbatim>\<open>df.tail(n)\<close>: the last \<open>n\<close> rows; for a negative \<open>n\<close>, pandas returns all rows but the
  first \<open>-n\<close>.
\<close>

definition tail :: "int \<Rightarrow> 'a list \<Rightarrow> 'a list" where
  "tail n xs = (if 0 \<le> n then drop (length xs - nat n) xs else drop (nat (- n)) xs)"

section \<open>Frames\<close>

record price_bar =
  timestamp :: timestamp
  symbol :: string
  open_price :: real
  high :: real
  low :: real
  close :: real
  volume :: real

text \<open>
  A row of a forecast frame. The columns \<^verbatim>\<open>lower_bound\<close> and \<^verbatim>\<open>upper_bound\<close> exist
  only in the frames of ARIMA and Prophet: \<open>None\<close> is the absent column.
\<close>

record forecast_point =
  f_timestamp :: timestamp
  f_symbol :: string
  predicted_close :: real
  forecast_day :: int
  lower_bound :: "real option"
  upper_bound :: "real option"
  price_change :: real
  price_change_pct :: npfloat

text \<open>
  \<^verbatim>\<open>df.sort_values("timestamp")\<close>. A price series has no two bars with the same
  timestamp, and then the ascending order is unique. pandas' default sort is not stable,
  so it does not fix the order of bars with equal timestamps; the model keeps the order
  of the input for them, and no theorem below relies on that choice.
\<close>

definition sort_values :: "price_bar list \<Rightarrow> price_bar list" where
  "sort_values df = sort_key timestamp df"

text \<open>
  The construction of the forecast frame shared by the linear, ARIMA and Prophet
  strategies: \<^verbatim>\<open>pd.DataFrame({...})\<close> from the columns (pandas raises ValueError when
  the arrays differ in length; the symbol is a scalar and is broadcast), followed by
  \<^verbatim>\<open>forecast_df["price_change"] = forecast_df["predicted_close"] - last_price\<close> and
  \<^verbatim>\<open>forecast_df["price_change_pct"] = (forecast_df["price_change"] / last_price) * 100\<close>.
\<close>

definition forecast_frame ::
  "timestamp list \<Rightarrow> string \<Rightarrow> real list \<Rightarrow> int list \<Rightarrow> (real \<times> real) list option \<Rightarrow> real
     \<Rightarrow> py_error + forecast_point list" where
  "forecast_frame future_dates ticker predicted_prices forecast_days conf_int last_price =
     (let n = length future_dates
      in if length predicted_prices \<noteq> n \<or> length forecast_days \<noteq> n
            \<or> (case conf_int of None \<Rightarrow> False | Some ci \<Rightarrow> length ci \<noteq> n)
         then Inl ValueError
         else Inr (map (\<lambda>i.
                \<lparr> f_timestamp = future_dates ! i,
                  f_symbol = ticker,
                  predicted_close = predicted_prices ! i,
                  forecast_day = forecast_days ! i,
                  lower_bound = map_option (\<lambda>ci. fst (ci ! i)) conf_int,
                  upper_bound = map_option (\<lambda>ci. snd (ci ! i)) conf_int,
                  price_change = predicted_prices ! i - last_price,
                  price_change_pct =
                    np_times_100 (np_div (predicted_prices ! i - last_price) last_price) \<rparr>)
              [0..<n]))"

text \<open>\<^verbatim>\<open>try: ... except Exception: return pd.DataFrame()\<close>.\<close>

definition or_empty :: "py_error + 'a list \<Rightarrow> 'a list" where
  "or_empty r = (case r of Inl e \<Rightarrow> [] | Inr df \<Rightarrow> df)"

section \<open>Linear regression strategy\<close>

text \<open>
  \<^verbatim>\<open>sklearn.linear_model.LinearRegression\<close> is an external library: ordinary least
  squares with an intercept on one feature, here in closed form. \<^verbatim>\<open>fit\<close> and
  \<^verbatim>\<open>predict\<close> raise ValueError on an array with no sample.
\<close>

definition mean :: "real list \<Rightarrow> real" where
  "mean xs = sum_list xs / real (length xs)"

record linear_model =
  coef :: real
  intercept :: real

definition LinearRegression_fit :: "real list \<Rightarrow> real list \<Rightarrow> py_error + linear_model" where
  "LinearRegression_fit X y =
     (if X = [] \<or> length X \<noteq> length y then Inl ValueError
      else let xm = mean X; ym = mean y;
               sxx = sum_list (map (\<lambda>x. (x - xm) * (x - xm)) X);
               sxy = sum_list (map (\<lambda>(x, v). (x - xm) * (v - ym)) (zip X y));
               slope = sxy / sxx
           in Inr \<lparr> coef = slope, intercept = ym - slope * xm \<rparr>)"

definition LinearRegression_predict :: "linear_model \<Rightarrow> real list \<Rightarrow> py_error + real list" where
  "LinearRegression_predict model X =
     (if X = [] then Inl ValueError
      else Inr (map (\<lambda>x. coef model * x + intercept model) X))"

definition forecast_linear_regression_try ::
  "price_bar list \<Rightarrow> string \<Rightarrow> int \<Rightarrow> py_error + forecast_point list" where
  "forecast_linear_regression_try df0 ticker days =
     (let df = sort_values df0;
          y = map close df;
          X = map real [0..<length y]
      in case LinearRegression_fit X y of
           Inl e \<Rightarrow> Inl e
         | Inr model \<Rightarrow>
             (let last_date = timestamp (last df)
              in case for_each (\<lambda>i. add_timedelta_days last_date (i + 1)) (py_range days) of
                   Inl e \<Rightarrow> Inl e
                 | Inr future_dates \<Rightarrow>
                     (let future_X = map real [length y..<length y + nat days]
                      in case LinearRegression_predict model future_X of
                           Inl e \<Rightarrow> Inl e
                         | Inr predicted_prices \<Rightarrow>
                             forecast_frame future_dates ticker predicted_prices
                               (map (\<lambda>i. i + 1) (py_range days)) None (last y))))"

definition forecast_linear_regression :: "price_bar list \<Rightarrow> string \<Rightarrow> int \<Rightarrow> forecast_point list" where
  "forecast_linear_regression df ticker days =
     (if df = [] \<or> length df < 5 then []
      else or_empty (forecast_linear_regression_try df ticker days))"

section \<open>Moving average strategy\<close>

text \<open>
  \<^verbatim>\<open>pd.Series(prices).ewm(span=s, adjust=False).mean()\<close>: \<open>y\<^sub>0 = x\<^sub>0\<close> and
  \<open>y\<^sub>t = (1 - \<alpha>) y\<^sub>t\<^sub>-\<^sub>1 + \<alpha> x\<^sub>t\<close> with \<open>\<alpha> = 2 / (s + 1)\<close>.
\<close>

fun ewm_from :: "real \<Rightarrow> real \<Rightarrow> real list \<Rightarrow> real list" where
  "ewm_from alpha prev [] = []"
| "ewm_from alpha prev (x # xs) =
     (let v = (1 - alpha) * prev + alpha * x in v # ewm_from alpha v xs)"

definition ewm_mean :: "nat \<Rightarrow> real list \<Rightarrow> real list" where
  "ewm_mean span_n xs =
     (case xs of [] \<Rightarrow> [] | x # rest \<Rightarrow> x # ewm_from (2 / (real span_n + 1)) x rest)"

definition forecast_moving_average_try ::
  "price_bar list \<Rightarrow> string \<Rightarrow> int \<Rightarrow> py_error + forecast_point list" where
  "forecast_moving_average_try df0 ticker days =
     (let df = sort_values df0;
          prices = map close df;
          ewma = ewm_mean (min 20 (length prices)) prices;
          recent_prices = drop (length prices - min 10 (length prices)) prices;
          trend = (last recent_prices - hd recent_prices) / real (length recent_prices);
          last_date = timestamp (last df);
          last_price = last prices
      in for_each (\<lambda>i.
           case add_timedelta_days last_date (i + 1) of
             Inl e \<Rightarrow> Inl e
           | Inr future_date \<Rightarrow>
               let predicted_price = last_price + trend * real_of_int (i + 1)
               in Inr \<lparr> f_timestamp = future_date,
                        f_symbol = ticker,
                        predicted_close = predicted_price,
                        forecast_day = i + 1,
                        lower_bound = None,
                        upper_bound = None,
                        price_change = predicted_price - last_price,
                        price_change_pct =
                          np_times_100 (np_div (predicted_price - last_price) last_price) \<rparr>)
         (py_range days))"

definition forecast_moving_average :: "price_bar list \<Rightarrow> string \<Rightarrow> int \<Rightarrow> forecast_point list" where
  "forecast_moving_average df ticker days =
     (if df = [] \<or> length df < 5 then []
      else or_empty (forecast_moving_average_try df ticker days))"

section \<open>The external collaborators\<close>

text \<open>
  What the module calls and does not define is a parameter of the model:
  \<^item> \<open>stock_prices_select s\<close>: the answer of
    \<^verbatim>\<open>supabase.table("stock_prices").select("*").eq("symbol", s).execute()\<close>, the rows
    with their timestamps parsed, or the exception of the request or of the parsing;
  \<^item> \<open>ARIMA_AVAILABLE\<close>, \<open>PROPHET_AVAILABLE\<close>: whether the import of the library succeeded;
  \<^item> \<open>arima_get_forecast prices days\<close>: fitting \<^verbatim>\<open>ARIMA(prices, order=(1, 1, 1))\<close> and
    reading \<^verbatim>\<open>predicted_mean.values\<close> and the two columns of \<^verbatim>\<open>conf_int(alpha=0.05)\<close>
    of \<^verbatim>\<open>get_forecast(steps=days)\<close>, or the exception any of these steps raises;
  \<^item> \<open>prophet_fit history\<close>: the fitted Prophet model, as the function from a date to
    \<^verbatim>\<open>(yhat, yhat_lower, yhat_upper)\<close>, or the exception of the fit or of the prediction.
  Every theorem below holds for all values of these parameters.
\<close>

record env =
  stock_prices_select :: "string \<Rightarrow> py_error + price_bar list"
  ARIMA_AVAILABLE :: bool
  arima_get_forecast :: "real list \<Rightarrow> int \<Rightarrow> py_error + (real list \<times> (real \<times> real) list)"
  PROPHET_AVAILABLE :: bool
  prophet_fit :: "(timestamp \<times> real) list \<Rightarrow> py_error + (timestamp \<Rightarrow> real \<times> real \<times> real)"

section \<open>ARIMA strategy\<close>

definition forecast_arima_try ::
  "env \<Rightarrow> price_bar list \<Rightarrow> string \<Rightarrow> int \<Rightarrow> py_error + forecast_point list" where
  "forecast_arima_try libs df0 ticker days =
     (let df = sort_values df0;
          prices = map close df
      in case arima_get_forecast libs prices days of
           Inl e \<Rightarrow> Inl e
         | Inr (predicted_prices, conf_int) \<Rightarrow>
             (let last_date = timestamp (last df);
                  last_price = last prices
              in case for_each (\<lambda>i. add_timedelta_days last_date (i + 1)) (py_range days) of
                   Inl e \<Rightarrow> Inl e
                 | Inr future_dates \<Rightarrow>
                     forecast_frame future_dates ticker predicted_prices
                       (map (\<lambda>i. i + 1) (py_range days)) (Some conf_int) last_price))"

definition forecast_arima :: "env \<Rightarrow> price_bar list \<Rightarrow> string \<Rightarrow> int \<Rightarrow> forecast_point list" where
  "forecast_arima libs df ticker days =
     (if \<not> ARIMA_AVAILABLE libs then []
      else if df = [] \<or> length df < 15 then []
      else or_empty (forecast_arima_try libs df ticker days))"

section \<open>Prophet strategy\<close>

text \<open>
  \<^verbatim>\<open>model.make_future_dataframe(periods=days, freq='D')\<close> of the Prophet library: the
  distinct dates of the history in ascending order, followed by the \<open>periods\<close> days after
  the last of them (\<^verbatim>\<open>pd.date_range\<close> raises on a negative number of periods and on a
  date out of range). \<^verbatim>\<open>model.predict(future)\<close> has one row per date of \<open>future\<close>.
\<close>

definition make_future_dataframe :: "timestamp list \<Rightarrow> int \<Rightarrow> py_error + timestamp list" where
  "make_future_dataframe history_dates periods =
     (let dates = sort (remdups history_dates)
      in if periods + 1 < 0 then Inl ValueError
         else case for_each (\<lambda>i. add_timedelta_days (last dates) (i + 1)) (py_range periods) of
                Inl e \<Rightarrow> Inl e
              | Inr new_dates \<Rightarrow> Inr (dates @ new_dates))"

definition forecast_prophet_try ::
  "env \<Rightarrow> price_bar list \<Rightarrow> string \<Rightarrow> int \<Rightarrow> py_error + forecast_point list" where
  "forecast_prophet_try libs df ticker days =
     (let df_prophet = sort_key fst (map (\<lambda>b. (timestamp b, close b)) df)
      in case prophet_fit libs df_prophet of
           Inl e \<Rightarrow> Inl e
         | Inr model \<Rightarrow>
             (case make_future_dataframe (map fst df_prophet) days of
                Inl e \<Rightarrow> Inl e
              | Inr future \<Rightarrow>
                  let forecast = map (\<lambda>ds. (ds, model ds)) future;
                      forecast_future = tail days forecast;
                      last_price = snd (last df_prophet)
                  in forecast_frame (map fst forecast_future) ticker
                       (map (\<lambda>(ds, yhat, lo, hi). yhat) forecast_future)
                       (map (\<lambda>i. i + 1) (py_range days))
                       (Some (map (\<lambda>(ds, yhat, lo, hi). (lo, hi)) forecast_future))
                       last_price))"

definition forecast_prophet :: "env \<Rightarrow> price_bar list \<Rightarrow> string \<Rightarrow> int \<Rightarrow> forecast_point list" where
  "forecast_prophet libs df ticker days =
     (if \<not> PROPHET_AVAILABLE libs then []
      else if df = [] \<or> length df < 10 then []
      else or_empty (forecast_prophet_try libs df ticker days))"

section \<open>Loader and dispatch\<close>

definition fetch_historical_data :: "env \<Rightarrow> string \<Rightarrow> int \<Rightarrow> price_bar list" where
  "fetch_historical_data db ticker days =
     (case stock_prices_select db ticker of
        Inl e \<Rightarrow> []
      | Inr data \<Rightarrow> if data = [] then [] else tail days (sort_values data))"

definition generate_forecast :: "env \<Rightarrow> string \<Rightarrow> int \<Rightarrow> string \<Rightarrow> forecast_point list" where
  "generate_forecast e ticker days method_name =
     (let df = fetch_historical_data e ticker 90
      in if df = [] then []
         else if method_name = ''linear'' then forecast_linear_regression df ticker days
         else if method_name = ''moving_average'' then forecast_moving_average df ticker days
         else if method_name = ''arima'' then forecast_arima e df ticker days
         else if method_name = ''prophet'' then forecast_prophet e df ticker days
         else [])"

section \<open>Result sink\<close>

text \<open>
  The table \<^verbatim>\<open>forecast_stocks\<close>, with the columns of the schema the source prints
  (\<^verbatim>\<open>print_table_schema\<close>); \<open>None\<close> is SQL's NULL, which is also what a key absent
  from an inserted record leaves in a nullable column. A calendar date is the number of
  its day; \<^verbatim>\<open>isoformat()\<close> writes it one-to-one.
\<close>

record db_row =
  forecast_date :: int
  db_symbol :: string
  db_method :: string
  db_predicted_close :: real
  db_price_change :: "real option"
  db_price_change_pct :: "npfloat option"
  db_forecast_day :: "int option"
  db_lower_bound :: "real option"
  db_upper_bound :: "real option"

text \<open>\<^verbatim>\<open>pd.to_datetime(ts).date()\<close> of a timezone-naive timestamp.\<close>

definition date_of :: "timestamp \<Rightarrow> int" where
  "date_of ts = ts div NS_PER_DAY"

text \<open>\<^verbatim>\<open>pd.notna\<close> on a float.\<close>

fun notna :: "npfloat \<Rightarrow> bool" where
  "notna NaN = False"
| "notna v = True"

text \<open>
  \<^verbatim>\<open>str.strip()\<close>: the characters \<^verbatim>\<open>str.isspace\<close> holds of, among the code points
  below 256 that a \<^typ>\<open>char\<close> holds (tab to carriage return, the four separators
  0x1C to 0x1F, space, next line 0x85 and no-break space 0xA0).
\<close>

definition is_space :: "char \<Rightarrow> bool" where
  "is_space c = (of_char c \<in> {9, 10, 11, 12, 13, 28, 29, 30, 31, 32, 133, 160 :: nat})"

definition strip :: "string \<Rightarrow> string" where
  "strip s = rev (dropWhile is_space (rev (dropWhile is_space s)))"

text \<open>
  The record built from one row in \<^verbatim>\<open>store_forecasts_to_supabase_v2.py\<close>
  (lines 48 to 61): it has no \<^verbatim>\<open>lower_bound\<close> and no \<^verbatim>\<open>upper_bound\<close> key.
\<close>

definition record_v2 :: "string \<Rightarrow> forecast_point \<Rightarrow> db_row" where
  "record_v2 method_name row =
     \<lparr> forecast_date = date_of (f_timestamp row),
       db_symbol = strip (f_symbol row),
       db_method = method_name,
       db_predicted_close = predicted_close row,
       db_price_change = Some (price_change row),
       db_price_change_pct =
         (if notna (price_change_pct row) then Some (price_change_pct row) else None),
       db_forecast_day = Some (forecast_day row),
       db_lower_bound = None,
       db_upper_bound = None \<rparr>"

text \<open>
  The record built from one row in \<^verbatim>\<open>store_forecasts_to_supabase.py\<close>
  (lines 82 to 96); \<open>today\<close> is \<^verbatim>\<open>datetime.now().date()\<close>.
\<close>

definition record_v1 :: "int \<Rightarrow> string \<Rightarrow> forecast_point \<Rightarrow> db_row" where
  "record_v1 today method_name row =
     \<lparr> forecast_date = today,
       db_symbol = f_symbol row,
       db_method = method_name,
       db_predicted_close = predicted_close row,
       db_price_change = Some (price_change row),
       db_price_change_pct = Some (price_change_pct row),
       db_forecast_day = Some (forecast_day row),
       db_lower_bound = lower_bound row,
       db_upper_bound = upper_bound row \<rparr>"

text \<open>
  The answer of \<^verbatim>\<open>supabase.table(TABLE_NAME).insert(batch).execute()\<close>: the new table,
  or an exception. \<open>DuplicateKey\<close> is the violation of a uniqueness constraint, which
  Postgres reports as \<^verbatim>\<open>duplicate key value violates unique constraint\<close>: the test
  \<^verbatim>\<open>"duplicate" in error_str or "unique" in error_str\<close> of the source is true of it and
  false of \<open>OtherAPIError\<close>.
\<close>

datatype api_error = DuplicateKey | OtherAPIError

type_synonym table_api = "db_row list \<Rightarrow> db_row list \<Rightarrow> api_error + db_row list"

text \<open>\<^verbatim>\<open>UNIQUE(forecast_date, symbol, method)\<close>.\<close>

definition row_key :: "db_row \<Rightarrow> int \<times> string \<times> string" where
  "row_key r = (forecast_date r, db_symbol r, db_method r)"

text \<open>
  The table store itself is not code of the repository. Its insert is one statement:
  all rows of the batch are stored, or, when a key of the batch is already in the table
  or stands twice in the batch, none is and the request fails.
\<close>

definition table_insert :: table_api where
  "table_insert tbl batch =
     (if distinct (map row_key batch)
         \<and> list_all (\<lambda>r. row_key r \<notin> set (map row_key tbl)) batch
      then Inr (tbl @ batch)
      else Inl DuplicateKey)"

text \<open>
  \<^verbatim>\<open>[records[i:i+batch_size] for i in range(0, len(records), batch_size)]\<close>, for a
  positive batch size.
\<close>

fun batches :: "nat \<Rightarrow> 'a list \<Rightarrow> 'a list list" where
  "batches n xs = (if n = 0 \<or> xs = [] then [] else take n xs # batches n (drop n xs))"

declare batches.simps [simp del]

text \<open>The loop over the batches: the number of rows accepted so far and the table.\<close>

fun insert_batches :: "table_api \<Rightarrow> db_row list \<Rightarrow> db_row list list \<Rightarrow> nat \<Rightarrow> nat \<times> db_row list" where
  "insert_batches ins tbl [] total_inserted = (total_inserted, tbl)"
| "insert_batches ins tbl (batch # rest) total_inserted =
     (case ins tbl batch of
        Inr tbl' \<Rightarrow> insert_batches ins tbl' rest (total_inserted + length batch)
      | Inl e \<Rightarrow>
          if e = DuplicateKey then insert_batches ins tbl rest (total_inserted + length batch)
          else insert_batches ins tbl rest total_inserted)"

text \<open>
  \<^verbatim>\<open>insert_forecast_data\<close> of the two files: the number returned, and the table
  afterwards. \<^verbatim>\<open>range\<close> raises ValueError on a step of zero, which the outer
  \<^verbatim>\<open>except\<close> turns into the result 0; a negative step gives no batch.
\<close>

definition insert_records :: "table_api \<Rightarrow> db_row list \<Rightarrow> db_row list \<Rightarrow> int \<Rightarrow> nat \<times> db_row list" where
  "insert_records ins tbl records batch_size =
     (if batch_size = 0 then (0, tbl)
      else if batch_size < 0 then insert_batches ins tbl [] 0
      else insert_batches ins tbl (batches (nat batch_size) records) 0)"

definition insert_forecast_data_v2 ::
  "table_api \<Rightarrow> db_row list \<Rightarrow> forecast_point list \<Rightarrow> string \<Rightarrow> int \<Rightarrow> nat \<times> db_row list" where
  "insert_forecast_data_v2 ins tbl forecast_df method_name batch_size =
     (if forecast_df = [] then (0, tbl)
      else insert_records ins tbl (map (record_v2 method_name) forecast_df) batch_size)"

definition insert_forecast_data ::
  "table_api \<Rightarrow> int \<Rightarrow> db_row list \<Rightarrow> forecast_point list \<Rightarrow> string \<Rightarrow> int \<Rightarrow> nat \<times> db_row list" where
  "insert_forecast_data ins today tbl forecast_df method_name batch_size =
     (if forecast_df = [] then (0, tbl)
      else insert_records ins tbl (map (record_v1 today method_name) forecast_df) batch_size)"

section \<open>Example data\<close>

text \<open>
  Consecutive daily bars of one symbol with the given closes; a price table that answers
  with three bars, latest first; and stand-ins for the two numerical libraries that repeat
  the last price with a band of one around it.
\<close>

definition daily_bar :: "int \<Rightarrow> real \<Rightarrow> price_bar" where
  "daily_bar day c =
     \<lparr> timestamp = day * NS_PER_DAY, symbol = ''AAPL'', open_price = c, high = c, low = c,
       close = c, volume = 1000 \<rparr>"

definition daily_series :: "real list \<Rightarrow> price_bar list" where
  "daily_series closes = map (\<lambda>i. daily_bar (20000 + int i) (closes ! i)) [0..<length closes]"

definition naive_libs :: env where
  "naive_libs =
     \<lparr> stock_prices_select = (\<lambda>s. if s = ''AAPL'' then Inr (rev (daily_series [3, 1, 2])) else Inr []),
       ARIMA_AVAILABLE = True,
       arima_get_forecast = (\<lambda>prices days.
         Inr (map (\<lambda>i. last prices) (py_range days),
              map (\<lambda>i. (last prices - 1, last prices + 1)) (py_range days))),
       PROPHET_AVAILABLE = True,
       prophet_fit = (\<lambda>history. Inr (\<lambda>ds.
         (snd (last history), snd (last history) - 1, snd (last history) + 1))) \<rparr>"

section \<open>Facts about the shared steps\<close>


lemma for_each_length: "for_each f xs = Inr ys \<Longrightarrow> length ys = length xs"
  by (induction xs arbitrary: ys) (auto split: sum.splits)

lemma add_timedelta_days_Inr:
  "add_timedelta_days t k = Inr r \<Longrightarrow> r = t + k * NS_PER_DAY"
  by (auto simp: add_timedelta_days_def Let_def split: if_splits)

lemma for_each_dates:
  "for_each (\<lambda>i. add_timedelta_days t (i + 1)) xs = Inr ds
     \<Longrightarrow> ds = map (\<lambda>i. t + (i + 1) * NS_PER_DAY) xs"
  by (induction xs arbitrary: ds) (auto split: sum.splits dest: add_timedelta_days_Inr)

lemma upto_as_upt: "[1..int n] = map (\<lambda>i. int i + 1) [0..<n]"
proof (induction n)
  case 0
  show ?case by simp
next
  case (Suc n)
  have "[1..int (Suc n)] = [1..int n] @ [int n + 1]"
    using upto_rec2 [of 1 "int (Suc n)"] by (simp add: add.commute)
  with Suc show ?case by simp
qed

lemma forecast_days_range: "0 \<le> h \<Longrightarrow> map (\<lambda>i. i + 1) (py_range h) = [1..h]"
  using upto_as_upt [of "nat h"] by (simp add: py_range_def comp_def)

lemma sorted_last_Max:
  fixes ys :: "int list"
  shows "sorted ys \<Longrightarrow> ys \<noteq> [] \<Longrightarrow> last ys = Max (set ys)"
proof (induction ys)
  case Nil
  then show ?case by simp
next
  case (Cons a ys)
  show ?case
  proof (cases "ys = []")
    case True
    then show ?thesis by simp
  next
    case False
    with Cons have "last ys = Max (set ys)" by simp
    moreover have "a \<le> Max (set ys)"
    proof -
      have "hd ys \<in> set ys" using False by simp
      moreover have "a \<le> hd ys" using Cons.prems(1) False by (cases ys) auto
      ultimately show ?thesis by (meson List.finite_set Max_ge order_trans)
    qed
    ultimately show ?thesis using False by (simp add: max_def)
  qed
qed

lemma sort_key_Nil_iff: "sort_key f xs = [] \<longleftrightarrow> xs = []"
  using length_sort [of f xs] by (metis length_0_conv)

lemma last_sort_values_timestamp:
  assumes "df \<noteq> []"
  shows "timestamp (last (sort_values df)) = Max (timestamp ` set df)"
proof -
  have "timestamp (last (sort_values df)) = last (map timestamp (sort_key timestamp df))"
    using assms by (simp add: sort_values_def last_map sort_key_Nil_iff)
  also have "\<dots> = Max (set (map timestamp (sort_key timestamp df)))"
    using assms by (intro sorted_last_Max) (simp_all add: sort_key_Nil_iff)
  finally show ?thesis by simp
qed

lemma last_sort_values_in: "df \<noteq> [] \<Longrightarrow> last (sort_values df) \<in> set df"
  using last_in_set [of "sort_values df"] by (simp add: sort_values_def sort_key_Nil_iff)

lemma forecast_frame_Inr:
  assumes "forecast_frame ds s ps fd ci lp = Inr res"
  shows "length res = length ds" and "map f_timestamp res = ds"
    and "map forecast_day res = fd"
    and "\<And>p. p \<in> set res \<Longrightarrow> price_change p = predicted_close p - lp
          \<and> price_change_pct p = np_times_100 (np_div (price_change p) lp)"
proof -
  have len: "length ps = length ds" "length fd = length ds"
    and res: "res = map (\<lambda>i.
                \<lparr> f_timestamp = ds ! i,
                  f_symbol = s,
                  predicted_close = ps ! i,
                  forecast_day = fd ! i,
                  lower_bound = map_option (\<lambda>ci. fst (ci ! i)) ci,
                  upper_bound = map_option (\<lambda>ci. snd (ci ! i)) ci,
                  price_change = ps ! i - lp,
                  price_change_pct = np_times_100 (np_div (ps ! i - lp) lp) \<rparr>)
              [0..<length ds]"
    using assms by (auto simp: forecast_frame_def Let_def split: if_splits)
  show "length res = length ds" by (simp add: res)
  show "map f_timestamp res = ds" by (simp add: res comp_def map_nth)
  show "map forecast_day res = fd"
    using len(2) by (simp add: res comp_def) (metis map_nth)
  show "\<And>p. p \<in> set res \<Longrightarrow> price_change p = predicted_close p - lp
          \<and> price_change_pct p = np_times_100 (np_div (price_change p) lp)"
    by (auto simp: res)
qed

lemma for_each_all2: "for_each f xs = Inr ys \<Longrightarrow> list_all2 (\<lambda>x y. f x = Inr y) xs ys"
  by (induction xs arbitrary: ys) (auto split: sum.splits)

lemma linear_try_Inr:
  assumes "forecast_linear_regression_try df s h = Inr res"
  shows "map f_timestamp res
           = map (\<lambda>i. timestamp (last (sort_values df)) + (i + 1) * NS_PER_DAY) (py_range h)"
    and "map forecast_day res = map (\<lambda>i. i + 1) (py_range h)"
    and "\<And>p. p \<in> set res \<Longrightarrow>
           price_change p = predicted_close p - last (map close (sort_values df))
           \<and> price_change_pct p
               = np_times_100 (np_div (price_change p) (last (map close (sort_values df))))"
proof -
  obtain model ds ps where
    ds: "for_each (\<lambda>i. add_timedelta_days (timestamp (last (sort_values df))) (i + 1))
           (py_range h) = Inr ds"
    and fr: "forecast_frame ds s ps (map (\<lambda>i. i + 1) (py_range h)) None
               (last (map close (sort_values df))) = Inr res"
    using assms
    by (auto simp: forecast_linear_regression_try_def Let_def split: sum.splits)
  show "map f_timestamp res
           = map (\<lambda>i. timestamp (last (sort_values df)) + (i + 1) * NS_PER_DAY) (py_range h)"
    using forecast_frame_Inr(2) [OF fr] for_each_dates [OF ds] by simp
  show "map forecast_day res = map (\<lambda>i. i + 1) (py_range h)"
    using forecast_frame_Inr(3) [OF fr] .
  show "\<And>p. p \<in> set res \<Longrightarrow>
           price_change p = predicted_close p - last (map close (sort_values df))
           \<and> price_change_pct p
               = np_times_100 (np_div (price_change p) (last (map close (sort_values df))))"
    using forecast_frame_Inr(4) [OF fr] .
qed

lemma arima_try_Inr:
  assumes "forecast_arima_try libs df s h = Inr res"
  shows "map f_timestamp res
           = map (\<lambda>i. timestamp (last (sort_values df)) + (i + 1) * NS_PER_DAY) (py_range h)"
    and "map forecast_day res = map (\<lambda>i. i + 1) (py_range h)"
    and "\<And>p. p \<in> set res \<Longrightarrow>
           price_change p = predicted_close p - last (map close (sort_values df))
           \<and> price_change_pct p
               = np_times_100 (np_div (price_change p) (last (map close (sort_values df))))"
proof -
  obtain ds ps ci where
    ds: "for_each (\<lambda>i. add_timedelta_days (timestamp (last (sort_values df))) (i + 1))
           (py_range h) = Inr ds"
    and fr: "forecast_frame ds s ps (map (\<lambda>i. i + 1) (py_range h)) (Some ci)
               (last (map close (sort_values df))) = Inr res"
    using assms
    by (auto simp: forecast_arima_try_def Let_def split: sum.splits prod.splits)
  show "map f_timestamp res
           = map (\<lambda>i. timestamp (last (sort_values df)) + (i + 1) * NS_PER_DAY) (py_range h)"
    using forecast_frame_Inr(2) [OF fr] for_each_dates [OF ds] by simp
  show "map forecast_day res = map (\<lambda>i. i + 1) (py_range h)"
    using forecast_frame_Inr(3) [OF fr] .
  show "\<And>p. p \<in> set res \<Longrightarrow>
           price_change p = predicted_close p - last (map close (sort_values df))
           \<and> price_change_pct p
               = np_times_100 (np_div (price_change p) (last (map close (sort_values df))))"
    using forecast_frame_Inr(4) [OF fr] .
qed

text \<open>The row the moving average loop appends for the index \<open>i\<close>.\<close>

lemma moving_average_rows:
  assumes "list_all2 (\<lambda>i p.
       (case add_timedelta_days T (i + 1) of
          Inl e \<Rightarrow> Inl e
        | Inr future_date \<Rightarrow>
            Inr \<lparr> f_timestamp = future_date, f_symbol = s,
                  predicted_close = lp + tr * real_of_int (i + 1),
                  forecast_day = i + 1, lower_bound = None, upper_bound = None,
                  price_change = lp + tr * real_of_int (i + 1) - lp,
                  price_change_pct =
                    np_times_100 (np_div (lp + tr * real_of_int (i + 1) - lp) lp) \<rparr>) = Inr p)
     xs res"
  shows "map f_timestamp res = map (\<lambda>i. T + (i + 1) * NS_PER_DAY) xs
     \<and> map forecast_day res = map (\<lambda>i. i + 1) xs
     \<and> (\<forall>p \<in> set res. predicted_close p = lp + tr * real_of_int (forecast_day p)
           \<and> price_change p = predicted_close p - lp
           \<and> price_change_pct p = np_times_100 (np_div (price_change p) lp))"
  using assms
  by (induction xs res rule: list_all2_induct)
     (auto split: sum.splits dest!: add_timedelta_days_Inr)

lemma moving_average_try_Inr:
  assumes "forecast_moving_average_try df s h = Inr res"
  shows "map f_timestamp res
           = map (\<lambda>i. timestamp (last (sort_values df)) + (i + 1) * NS_PER_DAY) (py_range h)"
    and "map forecast_day res = map (\<lambda>i. i + 1) (py_range h)"
    and "\<And>p. p \<in> set res \<Longrightarrow>
           price_change p = predicted_close p - last (map close (sort_values df))
           \<and> price_change_pct p
               = np_times_100 (np_div (price_change p) (last (map close (sort_values df))))"
    and "\<And>p. p \<in> set res \<Longrightarrow>
           predicted_close p = last (map close (sort_values df))
             + (last (drop (length df - min 10 (length df)) (map close (sort_values df)))
                - hd (drop (length df - min 10 (length df)) (map close (sort_values df))))
               / real (length (drop (length df - min 10 (length df)) (map close (sort_values df))))
               * real_of_int (forecast_day p)"
proof -
  note rows = moving_average_rows [OF for_each_all2,
      OF assms [unfolded forecast_moving_average_try_def Let_def]]
  show "map f_timestamp res
           = map (\<lambda>i. timestamp (last (sort_values df)) + (i + 1) * NS_PER_DAY) (py_range h)"
    using rows by simp
  show "map forecast_day res = map (\<lambda>i. i + 1) (py_range h)"
    using rows by simp
  show "\<And>p. p \<in> set res \<Longrightarrow>
           price_change p = predicted_close p - last (map close (sort_values df))
           \<and> price_change_pct p
               = np_times_100 (np_div (price_change p) (last (map close (sort_values df))))"
    using rows by simp
  show "\<And>p. p \<in> set res \<Longrightarrow>
           predicted_close p = last (map close (sort_values df))
             + (last (drop (length df - min 10 (length df)) (map close (sort_values df)))
                - hd (drop (length df - min 10 (length df)) (map close (sort_values df))))
               / real (length (drop (length df - min 10 (length df)) (map close (sort_values df))))
               * real_of_int (forecast_day p)"
    using rows by (simp add: sort_values_def)
qed

lemma insort_key_bar_pair:
  "insort_key fst (timestamp x, close x) (map (\<lambda>b. (timestamp b, close b)) ys)
     = map (\<lambda>b. (timestamp b, close b)) (insort_key timestamp x ys)"
  by (induction ys) simp_all

lemma sort_key_bar_pair:
  "sort_key fst (map (\<lambda>b. (timestamp b, close b)) df)
     = map (\<lambda>b. (timestamp b, close b)) (sort_values df)"
  unfolding sort_values_def
  by (induction df) (simp_all add: insort_key_bar_pair)

lemma last_sort_remdups:
  fixes xs :: "int list"
  assumes "xs \<noteq> []"
  shows "last (sort (remdups xs)) = Max (set xs)"
proof -
  have "sort (remdups xs) \<noteq> []"
    using assms by (simp add: sort_key_Nil_iff)
  then have "last (sort (remdups xs)) = Max (set (sort (remdups xs)))"
    by (intro sorted_last_Max) simp_all
  then show ?thesis by simp
qed

lemma tail_append_new:
  assumes "0 \<le> h" and "length new = nat h"
  shows "tail h (old @ new) = new"
  using assms by (simp add: tail_def)

lemma prophet_try_Inr:
  assumes "forecast_prophet_try libs df s h = Inr res" and "0 \<le> h" and "df \<noteq> []"
  shows "map f_timestamp res
           = map (\<lambda>i. timestamp (last (sort_values df)) + (i + 1) * NS_PER_DAY) (py_range h)"
    and "map forecast_day res = map (\<lambda>i. i + 1) (py_range h)"
    and "\<And>p. p \<in> set res \<Longrightarrow>
           price_change p = predicted_close p - last (map close (sort_values df))
           \<and> price_change_pct p
               = np_times_100 (np_div (price_change p) (last (map close (sort_values df))))"
proof -
  let ?hist = "map (\<lambda>b. (timestamp b, close b)) (sort_values df)"
  let ?dates = "sort (remdups (map fst ?hist))"
  have sdf: "sort_values df \<noteq> []"
    using assms(3) by (simp add: sort_values_def sort_key_Nil_iff)
  obtain model future where
    fut: "make_future_dataframe (map fst ?hist) h = Inr future"
    and fr: "forecast_frame (map fst (tail h (map (\<lambda>ds. (ds, model ds)) future))) s
               (map (\<lambda>(ds, yhat, lo, hi). yhat) (tail h (map (\<lambda>ds. (ds, model ds)) future)))
               (map (\<lambda>i. i + 1) (py_range h))
               (Some (map (\<lambda>(ds, yhat, lo, hi). (lo, hi))
                  (tail h (map (\<lambda>ds. (ds, model ds)) future))))
               (snd (last ?hist)) = Inr res"
    using assms(1)
    by (auto simp: forecast_prophet_try_def Let_def sort_key_bar_pair split: sum.splits)
  obtain new where
    new: "for_each (\<lambda>i. add_timedelta_days (last ?dates) (i + 1)) (py_range h) = Inr new"
    and future: "future = ?dates @ new"
    using fut by (auto simp: make_future_dataframe_def Let_def split: if_splits sum.splits)
  have "last ?dates = Max (set (map fst ?hist))"
    using sdf by (intro last_sort_remdups) simp
  also have "\<dots> = Max (timestamp ` set df)"
    by (simp add: sort_values_def image_image)
  also have "\<dots> = timestamp (last (sort_values df))"
    using last_sort_values_timestamp [OF assms(3)] by simp
  finally have last_dates: "last ?dates = timestamp (last (sort_values df))" .
  have new_eq: "new = map (\<lambda>i. timestamp (last (sort_values df)) + (i + 1) * NS_PER_DAY)
                        (py_range h)"
    using for_each_dates [OF new] last_dates by simp
  have "length new = nat h"
    using for_each_length [OF new] by (simp add: py_range_def)
  then have "tail h (map (\<lambda>ds. (ds, model ds)) future) = map (\<lambda>ds. (ds, model ds)) new"
    using tail_append_new [OF assms(2), of "map (\<lambda>ds. (ds, model ds)) new"
        "map (\<lambda>ds. (ds, model ds)) ?dates"]
    by (simp add: future)
  then have ts: "map fst (tail h (map (\<lambda>ds. (ds, model ds)) future)) = new"
    by (simp add: comp_def)
  have lp: "snd (last ?hist) = last (map close (sort_values df))"
    using sdf by (simp add: last_map)
  show "map f_timestamp res
           = map (\<lambda>i. timestamp (last (sort_values df)) + (i + 1) * NS_PER_DAY) (py_range h)"
    using forecast_frame_Inr(2) [OF fr] ts new_eq by simp
  show "map forecast_day res = map (\<lambda>i. i + 1) (py_range h)"
    using forecast_frame_Inr(3) [OF fr] .
  show "\<And>p. p \<in> set res \<Longrightarrow>
           price_change p = predicted_close p - last (map close (sort_values df))
           \<and> price_change_pct p
               = np_times_100 (np_div (price_change p) (last (map close (sort_values df))))"
    using forecast_frame_Inr(4) [OF fr] lp by simp
qed

lemma prophet_try_frame:
  assumes "forecast_prophet_try libs df s h = Inr res" and "df \<noteq> []"
  shows "map forecast_day res = map (\<lambda>i. i + 1) (py_range h)"
    and "\<And>p. p \<in> set res \<Longrightarrow>
           price_change p = predicted_close p - last (map close (sort_values df))
           \<and> price_change_pct p
               = np_times_100 (np_div (price_change p) (last (map close (sort_values df))))"
proof -
  let ?hist = "map (\<lambda>b. (timestamp b, close b)) (sort_values df)"
  have sdf: "sort_values df \<noteq> []"
    using assms(2) by (simp add: sort_values_def sort_key_Nil_iff)
  obtain ds ps ci where
    fr: "forecast_frame ds s ps (map (\<lambda>i. i + 1) (py_range h)) (Some ci)
           (snd (last ?hist)) = Inr res"
    using assms(1)
    by (auto simp: forecast_prophet_try_def Let_def sort_key_bar_pair split: sum.splits)
  have lp: "snd (last ?hist) = last (map close (sort_values df))"
    using sdf by (simp add: last_map)
  show "map forecast_day res = map (\<lambda>i. i + 1) (py_range h)"
    using forecast_frame_Inr(3) [OF fr] .
  show "\<And>p. p \<in> set res \<Longrightarrow>
           price_change p = predicted_close p - last (map close (sort_values df))
           \<and> price_change_pct p
               = np_times_100 (np_div (price_change p) (last (map close (sort_values df))))"
    using forecast_frame_Inr(4) [OF fr] lp by simp
qed

lemma last_close_sorted:
  "df \<noteq> [] \<Longrightarrow> last (map close (sort_values df)) = close (last (sort_values df))"
  by (simp add: last_map sort_values_def sort_key_Nil_iff)

lemma shape_from_columns:
  assumes "df \<noteq> []" and "0 \<le> h"
    and "map f_timestamp res
           = map (\<lambda>i. timestamp (last (sort_values df)) + (i + 1) * NS_PER_DAY) (py_range h)"
    and "map forecast_day res = map (\<lambda>i. i + 1) (py_range h)"
  shows "length res = nat h \<and> map forecast_day res = [1..h]
     \<and> map f_timestamp res = map (\<lambda>k. Max (timestamp ` set df) + k * NS_PER_DAY) [1..h]"
proof -
  have "length (map forecast_day res) = nat h"
    unfolding assms(4) by (simp add: py_range_def)
  then have "length res = nat h" by simp
  moreover have "map forecast_day res = [1..h]"
    using assms(4) forecast_days_range [OF assms(2)] by simp
  moreover have "map f_timestamp res
      = map (\<lambda>k. Max (timestamp ` set df) + k * NS_PER_DAY) (map (\<lambda>i. i + 1) (py_range h))"
    unfolding assms(3) last_sort_values_timestamp [OF assms(1)] by (simp add: comp_def)
  ultimately show ?thesis
    using forecast_days_range [OF assms(2)] by simp
qed

lemma for_each_succeeds:
  assumes "\<forall>x \<in> set xs. \<exists>y. f x = Inr y"
  shows "\<exists>ys. for_each f xs = Inr ys"
  using assms by (induction xs) (auto split: sum.splits)

lemma add_timedelta_days_in_range:
  assumes "0 \<le> i" and "i < h" and "h * NS_PER_DAY \<le> TS_MAX"
    and "T + h * NS_PER_DAY \<le> TS_MAX"
  shows "add_timedelta_days T (i + 1) = Inr (T + (i + 1) * NS_PER_DAY)"
proof -
  have "(i + 1) * NS_PER_DAY \<le> h * NS_PER_DAY"
    using assms(2) by (simp add: NS_PER_DAY_def)
  then show ?thesis
    using assms(3,4) by (simp add: add_timedelta_days_def Let_def)
qed

lemma dated_loop_succeeds:
  assumes "h * NS_PER_DAY \<le> TS_MAX" and "T + h * NS_PER_DAY \<le> TS_MAX"
  shows "\<exists>ys. for_each (\<lambda>i. case add_timedelta_days T (i + 1) of
                              Inl e \<Rightarrow> Inl e
                            | Inr future_date \<Rightarrow> Inr (row i future_date))
               (py_range h) = Inr ys"
proof (rule for_each_succeeds, rule ballI)
  fix i assume "i \<in> set (py_range h)"
  then have "0 \<le> i" "i < h" by (auto simp: py_range_def)
  then show "\<exists>y. (case add_timedelta_days T (i + 1) of
                     Inl e \<Rightarrow> Inl e
                   | Inr future_date \<Rightarrow> Inr (row i future_date)) = Inr y"
    using add_timedelta_days_in_range [OF _ _ assms] by simp
qed

lemma moving_average_in_range:
  assumes "5 \<le> length df" and "h * NS_PER_DAY \<le> TS_MAX"
    and "Max (timestamp ` set df) + h * NS_PER_DAY \<le> TS_MAX"
  shows "length (forecast_moving_average df ticker h) = nat h"
proof -
  have ne: "df \<noteq> []" using assms(1) by auto
  have T: "timestamp (last (sort_values df)) + h * NS_PER_DAY \<le> TS_MAX"
    using assms(3) last_sort_values_timestamp [OF ne] by simp
  have "\<exists>res. forecast_moving_average_try df ticker h = Inr res"
    unfolding forecast_moving_average_try_def Let_def
    by (rule dated_loop_succeeds [OF assms(2) T])
  then obtain res where res: "forecast_moving_average_try df ticker h = Inr res" ..
  have "length (map forecast_day res) = nat h"
    unfolding moving_average_try_Inr(2) [OF res] by (simp add: py_range_def)
  then show ?thesis
    using res assms(1) ne by (simp add: forecast_moving_average_def or_empty_def)
qed

lemma strategy_price_change:
  assumes "res \<in> {forecast_linear_regression df ticker h, forecast_moving_average df ticker h,
                 forecast_arima libs df ticker h, forecast_prophet libs df ticker h}"
    and "p \<in> set res"
  shows "df \<noteq> []"
    and "price_change p = predicted_close p - close (last (sort_values df))"
    and "price_change_pct p
           = np_times_100 (np_div (price_change p) (close (last (sort_values df))))"
proof -
  from assms(1) consider
      (linear) "res = forecast_linear_regression df ticker h"
    | (moving_average) "res = forecast_moving_average df ticker h"
    | (arima) "res = forecast_arima libs df ticker h"
    | (prophet) "res = forecast_prophet libs df ticker h"
    by auto
  then have "df \<noteq> [] \<and> price_change p = predicted_close p - last (map close (sort_values df))
           \<and> price_change_pct p
               = np_times_100 (np_div (price_change p) (last (map close (sort_values df))))"
  proof cases
    case linear
    with assms(2) have ne: "df \<noteq> []"
      and "forecast_linear_regression_try df ticker h = Inr res"
      by (auto simp: forecast_linear_regression_def or_empty_def split: if_splits sum.splits)
    then show ?thesis using linear_try_Inr(3) assms(2) by blast
  next
    case moving_average
    with assms(2) have ne: "df \<noteq> []"
      and "forecast_moving_average_try df ticker h = Inr res"
      by (auto simp: forecast_moving_average_def or_empty_def split: if_splits sum.splits)
    then show ?thesis using moving_average_try_Inr(3) assms(2) by blast
  next
    case arima
    with assms(2) have ne: "df \<noteq> []"
      and "forecast_arima_try libs df ticker h = Inr res"
      by (auto simp: forecast_arima_def or_empty_def split: if_splits sum.splits)
    then show ?thesis using arima_try_Inr(3) assms(2) by blast
  next
    case prophet
    with assms(2) have ne: "df \<noteq> []"
      and "forecast_prophet_try libs df ticker h = Inr res"
      by (auto simp: forecast_prophet_def or_empty_def split: if_splits sum.splits)
    then show ?thesis using prophet_try_frame(2) assms(2) by blast
  qed
  then show "df \<noteq> []"
    and "price_change p = predicted_close p - close (last (sort_values df))"
    and "price_change_pct p
           = np_times_100 (np_div (price_change p) (close (last (sort_values df))))"
    by (simp_all add: last_close_sorted)
qed

section \<open>Facts about the table store\<close>

lemma table_insert_Inr: "table_insert tbl b = Inr tbl' \<Longrightarrow> tbl' = tbl @ b"
  by (auto simp: table_insert_def split: if_splits)

lemma table_insert_cases:
  "table_insert tbl b = Inl DuplicateKey \<or> table_insert tbl b = Inr (tbl @ b)"
  by (simp add: table_insert_def)

lemma table_insert_conflict_mono:
  assumes "table_insert tbl b = Inl DuplicateKey"
  shows "table_insert (tbl @ added) b = Inl DuplicateKey"
  using assms by (auto simp: table_insert_def list_all_iff split: if_splits)

lemma table_insert_stored_conflict:
  assumes "b \<noteq> []" and "set b \<subseteq> set tbl"
  shows "table_insert tbl b = Inl DuplicateKey"
proof -
  have "hd b \<in> set b" using assms(1) by simp
  then have "row_key (hd b) \<in> set (map row_key tbl)" using assms(2) by auto
  with \<open>hd b \<in> set b\<close> show ?thesis
    by (auto simp: table_insert_def list_all_iff)
qed

lemma insert_batches_first_pass:
  assumes "insert_batches table_insert tbl bs n = (n', tbl')"
  shows "(\<exists>added. tbl' = tbl @ added)
     \<and> (\<forall>b \<in> set bs. b \<noteq> [] \<longrightarrow> table_insert tbl' b = Inl DuplicateKey)"
  using assms
proof (induction bs arbitrary: tbl n)
  case Nil
  then show ?case by simp
next
  case (Cons b bs)
  show ?case
  proof (cases "table_insert tbl b")
    case (Inl e)
    then have dup: "table_insert tbl b = Inl DuplicateKey"
      using table_insert_cases [of tbl b] by simp
    with Cons.prems have "insert_batches table_insert tbl bs (n + length b) = (n', tbl')"
      by simp
    from Cons.IH [OF this] obtain added where
      added: "tbl' = tbl @ added"
      and rest: "\<forall>b \<in> set bs. b \<noteq> [] \<longrightarrow> table_insert tbl' b = Inl DuplicateKey"
      by blast
    have "table_insert tbl' b = Inl DuplicateKey"
      unfolding added using dup by (rule table_insert_conflict_mono)
    with added rest show ?thesis by simp
  next
    case (Inr t1)
    then have t1: "t1 = tbl @ b" by (rule table_insert_Inr)
    from Cons.prems Inr
    have "insert_batches table_insert t1 bs (n + length b) = (n', tbl')" by simp
    from Cons.IH [OF this] obtain added where
      added: "tbl' = t1 @ added"
      and rest: "\<forall>b \<in> set bs. b \<noteq> [] \<longrightarrow> table_insert tbl' b = Inl DuplicateKey"
      by blast
    have "b \<noteq> [] \<longrightarrow> table_insert tbl' b = Inl DuplicateKey"
      using table_insert_stored_conflict [of b tbl'] by (auto simp: added t1)
    moreover have "tbl' = tbl @ (b @ added)" by (simp add: added t1)
    ultimately show ?thesis using rest by auto
  qed
qed

lemma insert_batches_all_conflict:
  assumes "\<forall>b \<in> set bs. ins tbl b = Inl DuplicateKey"
  shows "insert_batches ins tbl bs n = (n + length (concat bs), tbl)"
  using assms by (induction bs arbitrary: n) simp_all

lemma batches_nonempty: "b \<in> set (batches k xs) \<Longrightarrow> b \<noteq> []"
proof (induction k xs rule: batches.induct)
  case (1 n xs)
  show ?case
  proof (cases "n = 0 \<or> xs = []")
    case True
    with "1.prems" show ?thesis by (subst (asm) batches.simps) simp
  next
    case False
    with "1.prems" have "b = take n xs \<or> b \<in> set (batches n (drop n xs))"
      by (subst (asm) batches.simps) simp
    then show ?thesis using False "1.IH" by auto
  qed
qed

lemma concat_batches: "0 < k \<Longrightarrow> concat (batches k xs) = xs"
proof (induction k xs rule: batches.induct)
  case (1 n xs)
  show ?case
  proof (cases "xs = []")
    case True
    then show ?thesis by (subst batches.simps) simp
  next
    case False
    with "1.prems" have "batches n xs = take n xs # batches n (drop n xs)"
      by (subst batches.simps) simp
    moreover have "concat (batches n (drop n xs)) = drop n xs"
      using "1.IH" "1.prems" False by simp
    ultimately show ?thesis by simp
  qed
qed

lemma insert_records_twice:
  assumes "0 < batch_size"
  shows "insert_records table_insert (snd (insert_records table_insert tbl records batch_size))
           records batch_size
         = (length records, snd (insert_records table_insert tbl records batch_size))"
proof -
  let ?bs = "batches (nat batch_size) records"
  obtain n1 t1 where first: "insert_batches table_insert tbl ?bs 0 = (n1, t1)"
    by (cases "insert_batches table_insert tbl ?bs 0")
  have "\<forall>b \<in> set ?bs. table_insert t1 b = Inl DuplicateKey"
    using insert_batches_first_pass [OF first] batches_nonempty by blast
  then have "insert_batches table_insert t1 ?bs 0 = (0 + length (concat ?bs), t1)"
    by (rule insert_batches_all_conflict)
  moreover have "concat ?bs = records"
    using assms by (intro concat_batches) simp
  ultimately show ?thesis
    using assms first by (simp add: insert_records_def)
qed


section \<open>Evaluations of the examples\<close>



lemma linear_falling_example:
  "forecast_linear_regression (daily_series [4, 3, 2, 1, 0]) ''AAPL'' 2 =
     [\<lparr>f_timestamp = 20005 * NS_PER_DAY, f_symbol = ''AAPL'', predicted_close = - 1,
        forecast_day = 1, lower_bound = None, upper_bound = None, price_change = - 1,
        price_change_pct = NInf\<rparr>,
      \<lparr>f_timestamp = 20006 * NS_PER_DAY, f_symbol = ''AAPL'', predicted_close = - 2,
        forecast_day = 2, lower_bound = None, upper_bound = None, price_change = - 2,
        price_change_pct = NInf\<rparr>]"
  by (simp add: forecast_linear_regression_def forecast_linear_regression_try_def or_empty_def
      daily_series_def daily_bar_def sort_values_def py_range_def upt_rec add_timedelta_days_def
      NS_PER_DAY_def TS_MAX_def Let_def np_div_def LinearRegression_fit_def mean_def
      LinearRegression_predict_def forecast_frame_def)


lemma moving_average_rising_example:
  "forecast_moving_average (daily_series [1, 2, 3, 4, 5]) ''AAPL'' 1 =
     [\<lparr>f_timestamp = 20005 * NS_PER_DAY, f_symbol = ''AAPL'', predicted_close = 29 / 5,
        forecast_day = 1, lower_bound = None, upper_bound = None, price_change = 4 / 5,
        price_change_pct = Fin 16\<rparr>]"
  by (simp add: forecast_moving_average_def forecast_moving_average_try_def or_empty_def
      daily_series_def daily_bar_def sort_values_def py_range_def upt_rec add_timedelta_days_def
      NS_PER_DAY_def TS_MAX_def Let_def np_div_def)

lemma rising_series_last_close: "close (last (sort_values (daily_series [1, 2, 3, 4, 5]))) = 5"
  by (simp add: sort_values_def daily_series_def daily_bar_def NS_PER_DAY_def)

lemma moving_average_constant_example:
  "forecast_moving_average (daily_series [7, 7, 7, 7, 7]) ''AAPL'' 2 =
     [\<lparr>f_timestamp = 20005 * NS_PER_DAY, f_symbol = ''AAPL'', predicted_close = 7,
        forecast_day = 1, lower_bound = None, upper_bound = None, price_change = 0,
        price_change_pct = Fin 0\<rparr>,
      \<lparr>f_timestamp = 20006 * NS_PER_DAY, f_symbol = ''AAPL'', predicted_close = 7,
        forecast_day = 2, lower_bound = None, upper_bound = None, price_change = 0,
        price_change_pct = Fin 0\<rparr>]"
  by (simp add: forecast_moving_average_def forecast_moving_average_try_def or_empty_def
      daily_series_def daily_bar_def sort_values_def py_range_def upt_rec add_timedelta_days_def
      NS_PER_DAY_def TS_MAX_def Let_def np_div_def)

lemma naive_table_sorted:
  "sort_values (rev (daily_series [3, 1, 2])) = [daily_bar 20000 3, daily_bar 20001 1, daily_bar 20002 2]"
  by (simp add: sort_values_def daily_series_def daily_bar_def NS_PER_DAY_def)

section \<open>Shape of a forecast\<close>

text \<open>
  C1. For each of the four strategies and every horizon \<open>h \<ge> 1\<close>, the frame returned
  for a series is empty, or it has exactly \<open>h\<close> rows whose \<open>forecast_day\<close> values are
  \<open>1, \<dots>, h\<close> in order and whose timestamps are the latest timestamp of the series plus
  \<open>1, \<dots>, h\<close> whole days. This holds whatever the two numerical libraries return.
\<close>

theorem forecast_shape:
  assumes "1 \<le> h"
    and "res \<in> {forecast_linear_regression df ticker h, forecast_moving_average df ticker h,
                 forecast_arima libs df ticker h, forecast_prophet libs df ticker h}"
  shows "res = [] \<or>
     (length res = nat h \<and> map forecast_day res = [1..h]
      \<and> map f_timestamp res = map (\<lambda>k. Max (timestamp ` set df) + k * NS_PER_DAY) [1..h])"
proof (cases "res = []")
  case True
  then show ?thesis by simp
next
  case False
  have h0: "0 \<le> h" using assms(1) by simp
  from assms(2) consider
      (linear) "res = forecast_linear_regression df ticker h"
    | (moving_average) "res = forecast_moving_average df ticker h"
    | (arima) "res = forecast_arima libs df ticker h"
    | (prophet) "res = forecast_prophet libs df ticker h"
    by auto
  then have "df \<noteq> [] \<and>
     map f_timestamp res
       = map (\<lambda>i. timestamp (last (sort_values df)) + (i + 1) * NS_PER_DAY) (py_range h)
     \<and> map forecast_day res = map (\<lambda>i. i + 1) (py_range h)"
  proof cases
    case linear
    with False have ne: "df \<noteq> []"
      and "forecast_linear_regression_try df ticker h = Inr res"
      by (auto simp: forecast_linear_regression_def or_empty_def split: if_splits sum.splits)
    then show ?thesis using linear_try_Inr(1,2) by blast
  next
    case moving_average
    with False have ne: "df \<noteq> []"
      and "forecast_moving_average_try df ticker h = Inr res"
      by (auto simp: forecast_moving_average_def or_empty_def split: if_splits sum.splits)
    then show ?thesis using moving_average_try_Inr(1,2) by blast
  next
    case arima
    with False have ne: "df \<noteq> []"
      and "forecast_arima_try libs df ticker h = Inr res"
      by (auto simp: forecast_arima_def or_empty_def split: if_splits sum.splits)
    then show ?thesis using arima_try_Inr(1,2) by blast
  next
    case prophet
    with False have ne: "df \<noteq> []"
      and "forecast_prophet_try libs df ticker h = Inr res"
      by (auto simp: forecast_prophet_def or_empty_def split: if_splits sum.splits)
    then show ?thesis using prophet_try_Inr(1,2) [OF _ h0] by blast
  qed
  then show ?thesis using shape_from_columns [OF _ h0] by blast
qed

theorem forecast_shape_witness:
  "(1::int) \<le> 2
   \<and> forecast_linear_regression (daily_series [4, 3, 2, 1, 0]) ''AAPL'' 2 \<noteq> []
   \<and> length (forecast_linear_regression (daily_series [4, 3, 2, 1, 0]) ''AAPL'' 2) = nat 2
   \<and> map forecast_day (forecast_linear_regression (daily_series [4, 3, 2, 1, 0]) ''AAPL'' 2)
       = [1..2]
   \<and> map f_timestamp (forecast_linear_regression (daily_series [4, 3, 2, 1, 0]) ''AAPL'' 2)
       = map (\<lambda>k. Max (timestamp ` set (daily_series [4, 3, 2, 1, 0])) + k * NS_PER_DAY) [1..2]"
proof -
  have ne: "forecast_linear_regression (daily_series [4, 3, 2, 1, 0]) ''AAPL'' 2 \<noteq> []"
    by (simp add: linear_falling_example)
  show ?thesis
    using ne forecast_shape [where h = 2 and df = "daily_series [4, 3, 2, 1, 0]"
        and ticker = "''AAPL''" and libs = naive_libs
        and res = "forecast_linear_regression (daily_series [4, 3, 2, 1, 0]) ''AAPL'' 2"]
    by simp
qed

section \<open>Change against the last close\<close>

text \<open>
  C2. Every row of a frame returned by any of the four strategies has
  \<open>price_change = predicted_close - last_close\<close> and
  \<open>price_change_pct = price_change / last_close * 100\<close> (the float quotient of
  \<open>np_div\<close>), where \<open>last_close\<close> is the close of the final bar of the series in
  timestamp order: a bar of the series whose timestamp no other bar exceeds.
\<close>

theorem price_change_from_last_close:
  assumes "res \<in> {forecast_linear_regression df ticker h, forecast_moving_average df ticker h,
                 forecast_arima libs df ticker h, forecast_prophet libs df ticker h}"
    and "p \<in> set res"
  shows "last (sort_values df) \<in> set df
     \<and> (\<forall>b \<in> set df. timestamp b \<le> timestamp (last (sort_values df)))
     \<and> price_change p = predicted_close p - close (last (sort_values df))
     \<and> price_change_pct p
         = np_times_100 (np_div (price_change p) (close (last (sort_values df))))"
proof -
  note facts = strategy_price_change [OF assms]
  have "\<forall>b \<in> set df. timestamp b \<le> timestamp (last (sort_values df))"
    unfolding last_sort_values_timestamp [OF facts(1)] by simp
  then show ?thesis
    using last_sort_values_in [OF facts(1)] facts(2,3) by simp
qed

theorem price_change_from_last_close_witness:
  "hd (forecast_moving_average (daily_series [1, 2, 3, 4, 5]) ''AAPL'' 1)
     \<in> set (forecast_moving_average (daily_series [1, 2, 3, 4, 5]) ''AAPL'' 1)
   \<and> close (last (sort_values (daily_series [1, 2, 3, 4, 5]))) = 5
   \<and> predicted_close (hd (forecast_moving_average (daily_series [1, 2, 3, 4, 5]) ''AAPL'' 1))
       = 29 / 5
   \<and> price_change (hd (forecast_moving_average (daily_series [1, 2, 3, 4, 5]) ''AAPL'' 1))
       = 29 / 5 - 5
   \<and> price_change_pct (hd (forecast_moving_average (daily_series [1, 2, 3, 4, 5]) ''AAPL'' 1))
       = np_times_100 (np_div (29 / 5 - 5) 5)"
proof -
  have mem: "hd (forecast_moving_average (daily_series [1, 2, 3, 4, 5]) ''AAPL'' 1)
     \<in> set (forecast_moving_average (daily_series [1, 2, 3, 4, 5]) ''AAPL'' 1)"
    by (simp add: moving_average_rising_example)
  show ?thesis
    using mem rising_series_last_close
      price_change_from_last_close [where h = 1 and df = "daily_series [1, 2, 3, 4, 5]"
        and ticker = "''AAPL''" and libs = naive_libs
        and res = "forecast_moving_average (daily_series [1, 2, 3, 4, 5]) ''AAPL'' 1"
        and p = "hd (forecast_moving_average (daily_series [1, 2, 3, 4, 5]) ''AAPL'' 1)"]
    by (simp add: moving_average_rising_example)
qed


section \<open>The linear scenario\<close>

lemma upt_20: "[0..<20] = [0, 1, 2, 3, 4, 5, 6, 7, 8, 9, 10, 11, 12, 13, 14, 15, 16, 17, 18, 19]"
  by (simp add: upt_rec)

lemma scenario_bars:
  "daily_series (map real [100..<120]) =
    [daily_bar 20000 100, daily_bar 20001 101, daily_bar 20002 102, daily_bar 20003 103,
     daily_bar 20004 104, daily_bar 20005 105, daily_bar 20006 106, daily_bar 20007 107,
     daily_bar 20008 108, daily_bar 20009 109, daily_bar 20010 110, daily_bar 20011 111,
     daily_bar 20012 112, daily_bar 20013 113, daily_bar 20014 114, daily_bar 20015 115,
     daily_bar 20016 116, daily_bar 20017 117, daily_bar 20018 118, daily_bar 20019 119]"
  by (simp add: daily_series_def)

lemma scenario_sorted:
  "sort_values (daily_series (map real [100..<120])) = daily_series (map real [100..<120])"
  unfolding scenario_bars sort_values_def
  by (simp add: daily_bar_def NS_PER_DAY_def)

lemma scenario_closes:
  "map close (daily_series (map real [100..<120])) =
     [100, 101, 102, 103, 104, 105, 106, 107, 108, 109,
      110, 111, 112, 113, 114, 115, 116, 117, 118, 119]"
  unfolding scenario_bars by (simp add: daily_bar_def)

lemma scenario_length:
  "length [100, 101, 102, 103, 104, 105, 106, 107, 108, 109,
           110, 111, 112, 113, 114, 115, 116, 117, 118, 119 :: real] = 20"
  by simp

lemma scenario_last_close:
  "last [100, 101, 102, 103, 104, 105, 106, 107, 108, 109,
         110, 111, 112, 113, 114, 115, 116, 117, 118, 119 :: real] = 119"
  by simp

lemma scenario_last_date:
  "timestamp (last (daily_series (map real [100..<120]))) = 20019 * NS_PER_DAY"
  unfolding scenario_bars by (simp add: daily_bar_def)

lemma scenario_fit:
  "LinearRegression_fit (map real [0..<20])
     [100, 101, 102, 103, 104, 105, 106, 107, 108, 109,
      110, 111, 112, 113, 114, 115, 116, 117, 118, 119]
   = Inr \<lparr> coef = 1, intercept = 100 \<rparr>"
  unfolding upt_20 by (simp add: LinearRegression_fit_def mean_def Let_def)

lemma scenario_dates:
  "for_each (\<lambda>i. add_timedelta_days (20019 * NS_PER_DAY) (i + 1)) (py_range 5)
   = Inr [20020 * NS_PER_DAY, 20021 * NS_PER_DAY, 20022 * NS_PER_DAY, 20023 * NS_PER_DAY,
          20024 * NS_PER_DAY]"
  by (simp add: py_range_def upt_rec add_timedelta_days_def NS_PER_DAY_def TS_MAX_def Let_def)

lemma scenario_predict:
  "LinearRegression_predict \<lparr> coef = 1, intercept = 100 \<rparr> (map real [20..<20 + nat 5])
   = Inr [120, 121, 122, 123, 124]"
  by (simp add: LinearRegression_predict_def upt_rec)

lemma scenario_frame:
  "forecast_frame
     [20020 * NS_PER_DAY, 20021 * NS_PER_DAY, 20022 * NS_PER_DAY, 20023 * NS_PER_DAY,
      20024 * NS_PER_DAY]
     ''AAPL'' [120, 121, 122, 123, 124] (map (\<lambda>i. i + 1) (py_range 5)) None 119
   = Inr (map (\<lambda>k.
       \<lparr> f_timestamp = (20019 + k) * NS_PER_DAY, f_symbol = ''AAPL'',
         predicted_close = 119 + real_of_int k, forecast_day = k,
         lower_bound = None, upper_bound = None,
         price_change = real_of_int k,
         price_change_pct = Fin (real_of_int k * 100 / 119) \<rparr>) [1, 2, 3, 4, 5])"
  by (simp add: py_range_def upt_rec forecast_frame_def Let_def np_div_def)

lemma scenario_try:
  "forecast_linear_regression_try (daily_series (map real [100..<120])) ''AAPL'' 5
   = Inr (map (\<lambda>k.
       \<lparr> f_timestamp = (20019 + k) * NS_PER_DAY, f_symbol = ''AAPL'',
         predicted_close = 119 + real_of_int k, forecast_day = k,
         lower_bound = None, upper_bound = None,
         price_change = real_of_int k,
         price_change_pct = Fin (real_of_int k * 100 / 119) \<rparr>) [1, 2, 3, 4, 5])"
  unfolding forecast_linear_regression_try_def Let_def scenario_sorted scenario_closes
    scenario_length scenario_last_close scenario_last_date scenario_fit sum.case
    scenario_dates scenario_predict scenario_frame ..

lemma scenario_forecast:
  "forecast_linear_regression (daily_series (map real [100..<120])) ''AAPL'' 5
   = map (\<lambda>k.
       \<lparr> f_timestamp = (20019 + k) * NS_PER_DAY, f_symbol = ''AAPL'',
         predicted_close = 119 + real_of_int k, forecast_day = k,
         lower_bound = None, upper_bound = None,
         price_change = real_of_int k,
         price_change_pct = Fin (real_of_int k * 100 / 119) \<rparr>) [1, 2, 3, 4, 5]"
proof -
  have "length (daily_series (map real [100..<120])) = 20"
    by (simp add: daily_series_def)
  then have "\<not> (daily_series (map real [100..<120]) = []
               \<or> length (daily_series (map real [100..<120])) < 5)"
    by auto
  then show ?thesis
    unfolding forecast_linear_regression_def scenario_try or_empty_def by simp
qed

text \<open>
  C3. For the series of 20 consecutive daily bars with the closes 100, 101, ..., 119 and
  the horizon 5, the linear strategy predicts the closes 120, ..., 124 with the changes
  1, ..., 5 against the last close 119; the percentage changes are \<open>100 k / 119\<close>, within
  0.005 of 0.84, 1.68, 2.52, 3.36 and 4.20. The arithmetic is exact, so the values are
  met exactly, inside every floating-point tolerance.
\<close>

theorem linear_scenario:
  "map close (sort_values (daily_series (map real [100..<120])))
     = [100, 101, 102, 103, 104, 105, 106, 107, 108, 109,
        110, 111, 112, 113, 114, 115, 116, 117, 118, 119]
   \<and> map predicted_close
        (forecast_linear_regression (daily_series (map real [100..<120])) ''AAPL'' 5)
       = [120, 121, 122, 123, 124]
   \<and> map price_change
        (forecast_linear_regression (daily_series (map real [100..<120])) ''AAPL'' 5)
       = [1, 2, 3, 4, 5]
   \<and> map price_change_pct
        (forecast_linear_regression (daily_series (map real [100..<120])) ''AAPL'' 5)
       = [Fin (100 / 119), Fin (200 / 119), Fin (300 / 119), Fin (400 / 119), Fin (500 / 119)]
   \<and> \<bar>100 / 119 - 0.84\<bar> < (0.005 :: real)
   \<and> \<bar>200 / 119 - 1.68\<bar> < (0.005 :: real)
   \<and> \<bar>300 / 119 - 2.52\<bar> < (0.005 :: real)
   \<and> \<bar>400 / 119 - 3.36\<bar> < (0.005 :: real)
   \<and> \<bar>500 / 119 - 4.20\<bar> < (0.005 :: real)"
  unfolding scenario_forecast scenario_sorted scenario_closes by simp

section \<open>Moving average: extrapolation of the recent trend\<close>

text \<open>
  C4. For a series of at least 5 bars, every row of the moving average forecast has
  \<open>predicted_close = last_close + trend * forecast_day\<close>, where the trend is
  \<open>(most_recent - earliest_in_window) / window_size\<close> over the window of the last
  \<open>min 10 n\<close> closes in timestamp order. The EWMA bound in the function does not occur
  in the value. For a series whose closes all equal \<open>c\<close>, every predicted close is \<open>c\<close>.
  The frame has a row for each day of the horizon as long as the dates of the horizon
  stay in the range of a timestamp.
\<close>

theorem moving_average_trend_extrapolation:
  assumes "5 \<le> length df" and "p \<in> set (forecast_moving_average df ticker h)"
  shows "(let prices = map close (sort_values df);
              n = length prices;
              window_size = min 10 n;
              most_recent = prices ! (n - 1);
              earliest_in_window = prices ! (n - window_size);
              trend = (most_recent - earliest_in_window) / real window_size
          in predicted_close p = most_recent + trend * real_of_int (forecast_day p))
     \<and> ((\<forall>b \<in> set df. close b = c) \<longrightarrow> predicted_close p = c)
     \<and> (h * NS_PER_DAY \<le> TS_MAX \<and> Max (timestamp ` set df) + h * NS_PER_DAY \<le> TS_MAX
          \<longrightarrow> length (forecast_moving_average df ticker h) = nat h)"
proof -
  let ?prices = "map close (sort_values df)"
  let ?n = "length ?prices"
  let ?w = "min 10 ?n"
  have n: "?n = length df" by (simp add: sort_values_def)
  have n5: "5 \<le> ?n" using assms(1) n by simp
  have tr: "forecast_moving_average_try df ticker h = Inr (forecast_moving_average df ticker h)"
    using assms
    by (auto simp: forecast_moving_average_def or_empty_def split: if_splits sum.splits)
  have ne: "?prices \<noteq> []" using n5 by auto
  have k: "?n - ?w < ?n" using n5 by simp
  have last_nth: "last ?prices = ?prices ! (?n - 1)"
    using ne by (rule last_conv_nth)
  have last_drop: "last (drop (?n - ?w) ?prices) = ?prices ! (?n - 1)"
    using k last_nth by (simp add: last_drop)
  have hd_drop: "hd (drop (?n - ?w) ?prices) = ?prices ! (?n - ?w)"
    using k by (simp add: hd_drop_conv_nth)
  have len_drop: "length (drop (?n - ?w) ?prices) = ?w"
    by simp
  have formula: "predicted_close p = ?prices ! (?n - 1)
      + (?prices ! (?n - 1) - ?prices ! (?n - ?w)) / real ?w * real_of_int (forecast_day p)"
    using moving_average_try_Inr(4) [OF tr assms(2)] last_nth last_drop hd_drop len_drop
    unfolding n [symmetric] by simp
  have const: "predicted_close p = c" if all: "\<forall>b \<in> set df. close b = c"
  proof -
    have "\<forall>x \<in> set ?prices. x = c"
      using all by (auto simp: sort_values_def)
    moreover have "?prices ! (?n - 1) \<in> set ?prices" "?prices ! (?n - ?w) \<in> set ?prices"
      using k n5 by (simp_all del: length_map set_map)
    ultimately have "?prices ! (?n - 1) = c" "?prices ! (?n - ?w) = c"
      by blast+
    with formula show ?thesis by simp
  qed
  show ?thesis
    using formula const moving_average_in_range [OF assms(1)] by (simp add: Let_def)
qed

theorem moving_average_trend_extrapolation_witness:
  "5 \<le> length (daily_series [7, 7, 7, 7, 7])
   \<and> list_all (\<lambda>b. close b = 7) (daily_series [7, 7, 7, 7, 7])
   \<and> 2 * NS_PER_DAY \<le> TS_MAX
   \<and> Max (timestamp ` set (daily_series [7, 7, 7, 7, 7])) + 2 * NS_PER_DAY \<le> TS_MAX
   \<and> length (forecast_moving_average (daily_series [7, 7, 7, 7, 7]) ''AAPL'' 2) = nat 2
   \<and> predicted_close (hd (forecast_moving_average (daily_series [7, 7, 7, 7, 7]) ''AAPL'' 2)) = 7
   \<and> predicted_close (last (forecast_moving_average (daily_series [7, 7, 7, 7, 7]) ''AAPL'' 2)) = 7"
proof -
  have len: "5 \<le> length (daily_series [7, 7, 7, 7, 7])"
    by (simp add: daily_series_def)
  have all: "\<forall>b \<in> set (daily_series [7, 7, 7, 7, 7]). close b = 7"
    by (simp add: daily_series_def daily_bar_def upt_rec)
  have ne: "forecast_moving_average (daily_series [7, 7, 7, 7, 7]) ''AAPL'' 2 \<noteq> []"
    by (simp add: moving_average_constant_example)
  then have mem:
    "hd (forecast_moving_average (daily_series [7, 7, 7, 7, 7]) ''AAPL'' 2)
       \<in> set (forecast_moving_average (daily_series [7, 7, 7, 7, 7]) ''AAPL'' 2)"
    "last (forecast_moving_average (daily_series [7, 7, 7, 7, 7]) ''AAPL'' 2)
       \<in> set (forecast_moving_average (daily_series [7, 7, 7, 7, 7]) ''AAPL'' 2)"
    by simp_all
  have range: "2 * NS_PER_DAY \<le> TS_MAX"
    "Max (timestamp ` set (daily_series [7, 7, 7, 7, 7])) + 2 * NS_PER_DAY \<le> TS_MAX"
    by (simp_all add: daily_series_def daily_bar_def upt_rec NS_PER_DAY_def TS_MAX_def)
  show ?thesis
    using len all range
      moving_average_trend_extrapolation [OF len mem(1), where c = 7]
      moving_average_trend_extrapolation [OF len mem(2), where c = 7]
    by (simp add: list_all_iff)
qed

section \<open>A last close of zero\<close>




section \<open>Storing a forecast twice\<close>

lemma constant_forecast_records:
  "map (record_v2 ''moving_average'')
     (forecast_moving_average (daily_series [7, 7, 7, 7, 7]) ''AAPL'' 2)
   = [\<lparr>forecast_date = 20005, db_symbol = ''AAPL'', db_method = ''moving_average'',
        db_predicted_close = 7, db_price_change = Some 0, db_price_change_pct = Some (Fin 0),
        db_forecast_day = Some 1, db_lower_bound = None, db_upper_bound = None\<rparr>,
      \<lparr>forecast_date = 20006, db_symbol = ''AAPL'', db_method = ''moving_average'',
        db_predicted_close = 7, db_price_change = Some 0, db_price_change_pct = Some (Fin 0),
        db_forecast_day = Some 2, db_lower_bound = None, db_upper_bound = None\<rparr>]"
  by (simp add: moving_average_constant_example record_v2_def date_of_def NS_PER_DAY_def
      strip_def is_space_def)

lemma constant_forecast_first_store:
  "insert_forecast_data_v2 table_insert []
     (forecast_moving_average (daily_series [7, 7, 7, 7, 7]) ''AAPL'' 2) ''moving_average'' 50
   = (2, map (record_v2 ''moving_average'')
           (forecast_moving_average (daily_series [7, 7, 7, 7, 7]) ''AAPL'' 2))"
proof -
  have ne: "forecast_moving_average (daily_series [7, 7, 7, 7, 7]) ''AAPL'' 2 \<noteq> []"
    by (simp add: moving_average_constant_example)
  show ?thesis
    unfolding insert_forecast_data_v2_def insert_records_def constant_forecast_records
    using ne by (simp add: batches.simps table_insert_def row_key_def)
qed

text \<open>
  C7. Storing the same frame a second time, with the same method (and, for the first
  version of the sink, on the same day, so that the keys are the same), leaves the table
  as the first store left it and returns the number of rows of the frame: every batch
  meets the uniqueness constraint, the conflict is swallowed and its rows are counted.
  This holds for every table to start from and every positive batch size. For any table
  interface, a batch answered by a duplicate-key error leaves the table unchanged and
  adds the length of the batch to the count.
\<close>

theorem store_twice_idempotent:
  assumes "0 < batch_size"
  shows "insert_forecast_data_v2 table_insert
           (snd (insert_forecast_data_v2 table_insert tbl forecast_df method_name batch_size))
           forecast_df method_name batch_size
         = (length forecast_df,
            snd (insert_forecast_data_v2 table_insert tbl forecast_df method_name batch_size))
     \<and> insert_forecast_data table_insert today
           (snd (insert_forecast_data table_insert today tbl forecast_df method_name batch_size))
           forecast_df method_name batch_size
         = (length forecast_df,
            snd (insert_forecast_data table_insert today tbl forecast_df method_name batch_size))
     \<and> (ins tbl batch = Inl DuplicateKey
          \<longrightarrow> insert_batches ins tbl [batch] n = (n + length batch, tbl))"
  using insert_records_twice [OF assms]
  by (simp add: insert_forecast_data_v2_def insert_forecast_data_def)

theorem store_twice_idempotent_witness:
  "(0::int) < 50
   \<and> insert_forecast_data_v2 table_insert []
        (forecast_moving_average (daily_series [7, 7, 7, 7, 7]) ''AAPL'' 2) ''moving_average'' 50
      = (2, map (record_v2 ''moving_average'')
              (forecast_moving_average (daily_series [7, 7, 7, 7, 7]) ''AAPL'' 2))
   \<and> insert_forecast_data_v2 table_insert
        (map (record_v2 ''moving_average'')
           (forecast_moving_average (daily_series [7, 7, 7, 7, 7]) ''AAPL'' 2))
        (forecast_moving_average (daily_series [7, 7, 7, 7, 7]) ''AAPL'' 2) ''moving_average'' 50
      = (2, map (record_v2 ''moving_average'')
              (forecast_moving_average (daily_series [7, 7, 7, 7, 7]) ''AAPL'' 2))"
proof -
  have len: "length (forecast_moving_average (daily_series [7, 7, 7, 7, 7]) ''AAPL'' 2) = 2"
    by (simp add: moving_average_constant_example)
  show ?thesis
    using len constant_forecast_first_store
      store_twice_idempotent [where batch_size = 50 and tbl = "[]"
        and forecast_df = "forecast_moving_average (daily_series [7, 7, 7, 7, 7]) ''AAPL'' 2"
        and method_name = "''moving_average''"]
    by simp
qed

section \<open>The record built from a forecast point\<close>

text \<open>
  C8 says that the record of a point has the calendar date of the point's timestamp as
  its \<open>forecast_date\<close> and carries the bounds of an ARIMA or Prophet point. Neither
  version of the sink does both. For an ARIMA point of day 20020 with the bounds 118 and
  120: the second version takes the date of the timestamp and leaves both bounds out;
  the first version keeps the bounds and takes the day of the run (here 20000) as the
  date.
\<close>

theorem arima_point_records:
  "forecast_date (record_v2 ''arima''
      \<lparr>f_timestamp = 20020 * NS_PER_DAY, f_symbol = ''AAPL'', predicted_close = 119,
        forecast_day = 1, lower_bound = Some 118, upper_bound = Some 120, price_change = 0,
        price_change_pct = Fin 0\<rparr>) = 20020
   \<and> db_lower_bound (record_v2 ''arima''
      \<lparr>f_timestamp = 20020 * NS_PER_DAY, f_symbol = ''AAPL'', predicted_close = 119,
        forecast_day = 1, lower_bound = Some 118, upper_bound = Some 120, price_change = 0,
        price_change_pct = Fin 0\<rparr>) = None
   \<and> db_upper_bound (record_v2 ''arima''
      \<lparr>f_timestamp = 20020 * NS_PER_DAY, f_symbol = ''AAPL'', predicted_close = 119,
        forecast_day = 1, lower_bound = Some 118, upper_bound = Some 120, price_change = 0,
        price_change_pct = Fin 0\<rparr>) = None
   \<and> forecast_date (record_v1 20000 ''arima''
      \<lparr>f_timestamp = 20020 * NS_PER_DAY, f_symbol = ''AAPL'', predicted_close = 119,
        forecast_day = 1, lower_bound = Some 118, upper_bound = Some 120, price_change = 0,
        price_change_pct = Fin 0\<rparr>) = 20000
   \<and> db_lower_bound (record_v1 20000 ''arima''
      \<lparr>f_timestamp = 20020 * NS_PER_DAY, f_symbol = ''AAPL'', predicted_close = 119,
        forecast_day = 1, lower_bound = Some 118, upper_bound = Some 120, price_change = 0,
        price_change_pct = Fin 0\<rparr>) = Some 118
   \<and> db_upper_bound (record_v1 20000 ''arima''
      \<lparr>f_timestamp = 20020 * NS_PER_DAY, f_symbol = ''AAPL'', predicted_close = 119,
        forecast_day = 1, lower_bound = Some 118, upper_bound = Some 120, price_change = 0,
        price_change_pct = Fin 0\<rparr>) = Some 120"
  by (simp add: record_v2_def record_v1_def date_of_def NS_PER_DAY_def)

section \<open>Loader\<close>

lemma naive_table_nonempty: "daily_series [3, 1, 2] \<noteq> []"
  by (simp add: daily_series_def)

lemma sorted_drop_map: "sorted (map f xs) \<Longrightarrow> sorted (map f (drop k xs))"
  by (simp add: drop_map [symmetric] sorted_wrt_drop)

text \<open>
  C9. For every symbol and every number \<open>lookback_days \<ge> 0\<close> of bars asked for: when
  the request fails the loader returns the empty series and raises nothing; otherwise it
  returns the last \<open>min lookback_days n\<close> bars of the \<open>n\<close> bars of the answer put in
  ascending order of timestamp (a rearrangement of the answer), which are themselves
  ascending, so fewer than \<open>lookback_days\<close> only when the history is shorter; an answer
  with no bar gives the empty series. A count of bars is not negative: the callers of
  the loader pass 90.
\<close>

theorem loader_last_bars:
  assumes "0 \<le> days"
  shows "(case stock_prices_select db ticker of
            Inl e \<Rightarrow> fetch_historical_data db ticker days = []
          | Inr data \<Rightarrow>
              (\<exists>older. sort_values data = older @ fetch_historical_data db ticker days)
              \<and> length (fetch_historical_data db ticker days) = min (nat days) (length data)
              \<and> sorted (map timestamp (fetch_historical_data db ticker days))
              \<and> sorted (map timestamp (sort_values data))
              \<and> mset (sort_values data) = mset data)"
proof (cases "stock_prices_select db ticker")
  case (Inl e)
  then show ?thesis by (simp add: fetch_historical_data_def)
next
  case (Inr data)
  have eq: "fetch_historical_data db ticker days
      = drop (length (sort_values data) - nat days) (sort_values data)"
    using Inr assms by (simp add: fetch_historical_data_def tail_def sort_values_def)
  have "sort_values data
      = take (length (sort_values data) - nat days) (sort_values data)
        @ fetch_historical_data db ticker days"
    unfolding eq by simp
  then have "\<exists>older. sort_values data = older @ fetch_historical_data db ticker days" ..
  moreover have "length (fetch_historical_data db ticker days) = min (nat days) (length data)"
    unfolding eq by (simp add: sort_values_def)
  moreover have "sorted (map timestamp (fetch_historical_data db ticker days))"
    unfolding eq sort_values_def by (intro sorted_drop_map) simp
  moreover have "sorted (map timestamp (sort_values data))"
    by (simp add: sort_values_def)
  moreover have "mset (sort_values data) = mset data"
    by (simp add: sort_values_def)
  ultimately show ?thesis using Inr by simp
qed

theorem loader_last_bars_witness:
  "(0::int) \<le> 2
   \<and> stock_prices_select naive_libs ''AAPL''
       = Inr [daily_bar 20002 2, daily_bar 20001 1, daily_bar 20000 3]
   \<and> fetch_historical_data naive_libs ''AAPL'' 2 = [daily_bar 20001 1, daily_bar 20002 2]
   \<and> length (fetch_historical_data naive_libs ''AAPL'' 2) = min (nat 2) 3
   \<and> sorted (map timestamp (fetch_historical_data naive_libs ''AAPL'' 2))"
proof -
  have sel: "stock_prices_select naive_libs ''AAPL''
       = Inr [daily_bar 20002 2, daily_bar 20001 1, daily_bar 20000 3]"
    by (simp add: naive_libs_def daily_series_def)
  have res: "fetch_historical_data naive_libs ''AAPL'' 2
      = [daily_bar 20001 1, daily_bar 20002 2]"
    by (simp add: fetch_historical_data_def naive_libs_def naive_table_sorted
        naive_table_nonempty tail_def)
  show ?thesis
    using sel res loader_last_bars [where days = 2 and db = naive_libs and ticker = "''AAPL''"]
    by simp
qed

section \<open>Unknown method\<close>

text \<open>
  C10. For a method name other than \<^verbatim>\<open>linear\<close>, \<^verbatim>\<open>moving_average\<close>, \<^verbatim>\<open>arima\<close> and
  \<^verbatim>\<open>prophet\<close>, \<open>generate_forecast\<close> returns the empty frame, for every symbol (with or
  without data), every horizon and every behaviour of the collaborators.
\<close>

theorem unknown_method_empty:
  assumes "method_name \<notin> {''linear'', ''moving_average'', ''arima'', ''prophet''}"
  shows "generate_forecast e ticker days method_name = []"
  using assms by (simp add: generate_forecast_def Let_def)

theorem unknown_method_empty_witness:
  "''lstm'' \<notin> {''linear'', ''moving_average'', ''arima'', ''prophet''}
   \<and> fetch_historical_data naive_libs ''AAPL'' 90 \<noteq> []
   \<and> generate_forecast naive_libs ''AAPL'' 7 ''lstm'' = []"
proof -
  have "fetch_historical_data naive_libs ''AAPL'' 90 \<noteq> []"
    by (simp add: fetch_historical_data_def naive_libs_def naive_table_sorted
        naive_table_nonempty tail_def)
  then show ?thesis
    using unknown_method_empty [where method_name = "''lstm''" and e = naive_libs
        and ticker = "''AAPL''" and days = 7]
    by simp
qed

section \<open>Insufficient data\<close>

text \<open>
  C5. A series shorter than the minimum length of a strategy (5 for linear and
  moving average, 15 for ARIMA, 10 for Prophet) gives the empty frame, for every
  horizon and whatever the libraries do. The length test stands before the
  \<^verbatim>\<open>try\<close> block and cannot raise.
\<close>

theorem short_series_empty:
  "(length df < 5 \<longrightarrow> forecast_linear_regression df ticker days = [])
   \<and> (length df < 5 \<longrightarrow> forecast_moving_average df ticker days = [])
   \<and> (length df < 15 \<longrightarrow> forecast_arima libs df ticker days = [])
   \<and> (length df < 10 \<longrightarrow> forecast_prophet libs df ticker days = [])"
  by (simp add: forecast_linear_regression_def forecast_moving_average_def
      forecast_arima_def forecast_prophet_def)

theorem short_series_empty_witness:
  "length (daily_series [1, 2, 3, 4]) < 5
   \<and> forecast_linear_regression (daily_series [1, 2, 3, 4]) ''AAPL'' 7 = []
   \<and> forecast_moving_average (daily_series [1, 2, 3, 4]) ''AAPL'' 7 = []
   \<and> forecast_arima naive_libs (daily_series [1, 2, 3, 4]) ''AAPL'' 7 = []
   \<and> forecast_prophet naive_libs (daily_series [1, 2, 3, 4]) ''AAPL'' 7 = []"
  using short_series_empty [of "daily_series [1, 2, 3, 4]" "''AAPL''" 7 naive_libs]
  by (simp add: daily_series_def)

end
